theory Spec2Isabelle
  imports Main "HOL-Library.Word"
begin

unbundle bit_operations_syntax

section \<open>Bytes, errors and the random source\<close>

text \<open>
  A Go \<^verbatim>\<open>[]byte\<close> is a list of 8-bit words, a Go \<^verbatim>\<open>string\<close> a list of characters.
  A Go \<^verbatim>\<open>error\<close> is a value; the constructors below are the errors the cipher package
  can return, with \<open>Wrapped\<close> for \<^verbatim>\<open>fmt.Errorf("...: %w", err)\<close>.
\<close>

type_synonym byte = "8 word"

datatype error =
    InvalidByteError char
  | ErrLength
  | KeySizeError nat
  | EOF
  | ErrUnexpectedEOF
  | ErrOpen
  | Errorf string
  | Wrapped string error
  | Panic string

text \<open>
  \<^verbatim>\<open>crypto/rand.Reader\<close> is the environment's entropy: a finite supply of bytes.
  \<^verbatim>\<open>io.ReadFull(rand.Reader, buf)\<close> either fills the whole buffer or returns an error:
  \<^verbatim>\<open>io.EOF\<close> when nothing could be read, \<^verbatim>\<open>io.ErrUnexpectedEOF\<close> when the supply ended
  part of the way.
\<close>

type_synonym rand_reader = "byte list"

definition io_ReadFull :: "rand_reader \<Rightarrow> nat \<Rightarrow> (error + byte list) \<times> rand_reader" where
  "io_ReadFull r n =
     (if n \<le> length r then (Inr (take n r), drop n r)
      else (Inl (if r = [] then EOF else ErrUnexpectedEOF), []))"

section \<open>encoding/hex\<close>

definition hextable :: string where
  "hextable = ''0123456789abcdef''"

definition hex_EncodeByte :: "byte \<Rightarrow> string" where
  "hex_EncodeByte v = [hextable ! unat (drop_bit 4 v), hextable ! unat (v AND 0x0f)]"

definition hex_EncodeToString :: "byte list \<Rightarrow> string" where
  "hex_EncodeToString src = concat (map hex_EncodeByte src)"

definition fromHexChar :: "char \<Rightarrow> byte option" where
  "fromHexChar c =
     (let n = (of_char c :: nat) in
      if 48 \<le> n \<and> n \<le> 57 then Some (of_nat (n - 48))
      else if 97 \<le> n \<and> n \<le> 102 then Some (of_nat (n - 97 + 10))
      else if 65 \<le> n \<and> n \<le> 70 then Some (of_nat (n - 65 + 10))
      else None)"

fun hex_DecodeString :: "string \<Rightarrow> error + byte list" where
  "hex_DecodeString [] = Inr []"
| "hex_DecodeString [p] =
     (case fromHexChar p of None \<Rightarrow> Inl (InvalidByteError p) | Some a \<Rightarrow> Inl ErrLength)"
| "hex_DecodeString (p # q # rest) =
     (case fromHexChar p of
        None \<Rightarrow> Inl (InvalidByteError p)
      | Some a \<Rightarrow>
         (case fromHexChar q of
            None \<Rightarrow> Inl (InvalidByteError q)
          | Some b \<Rightarrow>
             (case hex_DecodeString rest of
                Inl e \<Rightarrow> Inl e
              | Inr bs \<Rightarrow> Inr ((push_bit 4 a OR b) # bs))))"

definition is_hex_digit :: "char \<Rightarrow> bool" where
  "is_hex_digit c = (fromHexChar c \<noteq> None)"

section \<open>crypto/aes and crypto/cipher\<close>

text \<open>
  \<^verbatim>\<open>aes.NewCipher\<close> accepts keys of 16, 24 or 32 bytes and returns \<^verbatim>\<open>KeySizeError\<close>
  otherwise. \<^verbatim>\<open>cipher.NewGCM\<close> fails only for a block size other than 16, which an AES
  block never has; the nonce size of the resulting AEAD is 12.

  The AES-GCM transformation itself is the standard library's: it is a parameter of the
  model, a pair of functions on (key, nonce, data). \<open>aead_Seal\<close> returns ciphertext and
  tag, \<open>aead_Open\<close> returns the plaintext or nothing when authentication fails.
\<close>

record aead =
  aead_Seal :: "byte list \<Rightarrow> byte list \<Rightarrow> byte list \<Rightarrow> byte list"
  aead_Open :: "byte list \<Rightarrow> byte list \<Rightarrow> byte list \<Rightarrow> byte list option"

datatype block = Block "byte list"

datatype gcm = GCM "byte list"

definition aes_NewCipher :: "byte list \<Rightarrow> error + block" where
  "aes_NewCipher key =
     (let k = length key in
      if k = 16 \<or> k = 24 \<or> k = 32 then Inr (Block key) else Inl (KeySizeError k))"

fun cipher_NewGCM :: "block \<Rightarrow> error + gcm" where
  "cipher_NewGCM (Block key) = Inr (GCM key)"

definition NonceSize :: "gcm \<Rightarrow> nat" where
  "NonceSize g = 12"

fun gcm_Seal :: "aead \<Rightarrow> gcm \<Rightarrow> byte list \<Rightarrow> byte list \<Rightarrow> byte list \<Rightarrow> error + byte list" where
  "gcm_Seal A (GCM key) dst nonce plaintext =
     (if length nonce \<noteq> NonceSize (GCM key)
      then Inl (Panic ''crypto/cipher: incorrect nonce length given to GCM'')
      else Inr (dst @ aead_Seal A key nonce plaintext))"

fun gcm_Open :: "aead \<Rightarrow> gcm \<Rightarrow> byte list \<Rightarrow> byte list \<Rightarrow> error + byte list" where
  "gcm_Open A (GCM key) nonce ciphertext =
     (if length nonce \<noteq> NonceSize (GCM key)
      then Inl (Panic ''crypto/cipher: incorrect nonce length given to GCM'')
      else (case aead_Open A key nonce ciphertext of
              None \<Rightarrow> Inl ErrOpen
            | Some plaintext \<Rightarrow> Inr plaintext))"

text \<open>Go slicing \<^verbatim>\<open>s[:n]\<close> and \<^verbatim>\<open>s[n:]\<close>: out of range is a run-time panic.\<close>

definition slice_to :: "byte list \<Rightarrow> nat \<Rightarrow> error + byte list" where
  "slice_to s n =
     (if n \<le> length s then Inr (take n s) else Inl (Panic ''slice bounds out of range''))"

definition slice_from :: "byte list \<Rightarrow> nat \<Rightarrow> error + byte list" where
  "slice_from s n =
     (if n \<le> length s then Inr (drop n s) else Inl (Panic ''slice bounds out of range''))"

section \<open>Package cipher\<close>

definition Encode :: "aead \<Rightarrow> rand_reader \<Rightarrow> byte list \<Rightarrow> string \<Rightarrow> (error + byte list) \<times> rand_reader" where
  "Encode A r object key =
     (case hex_DecodeString key of
        Inl err \<Rightarrow> (Inl err, r)
      | Inr keyBytes \<Rightarrow>
         (case aes_NewCipher keyBytes of
            Inl err \<Rightarrow> (Inl (Wrapped ''could not create cipher block'' err), r)
          | Inr cipherBlock \<Rightarrow>
             (case cipher_NewGCM cipherBlock of
                Inl err \<Rightarrow> (Inl (Wrapped ''could not create GCM'' err), r)
              | Inr aesGCM \<Rightarrow>
                 (case io_ReadFull r (NonceSize aesGCM) of
                    (Inl err, r') \<Rightarrow> (Inl (Wrapped ''could not generate nonce'' err), r')
                  | (Inr nonce, r') \<Rightarrow> (gcm_Seal A aesGCM nonce nonce object, r')))))"

definition Decode :: "aead \<Rightarrow> byte list \<Rightarrow> string \<Rightarrow> error + byte list" where
  "Decode A cipherObject key =
     (case hex_DecodeString key of
        Inl err \<Rightarrow> Inl (Wrapped ''invalid hex key'' err)
      | Inr keyBytes \<Rightarrow>
         (case aes_NewCipher keyBytes of
            Inl err \<Rightarrow> Inl (Wrapped ''could not create cipher block'' err)
          | Inr block \<Rightarrow>
             (case cipher_NewGCM block of
                Inl err \<Rightarrow> Inl (Wrapped ''could not create GCM'' err)
              | Inr aesGCM \<Rightarrow>
                 (let nonceSize = NonceSize aesGCM in
                  if length cipherObject < nonceSize then Inl (Errorf ''ciphertext too short'')
                  else
                    (case slice_to cipherObject nonceSize of
                       Inl p \<Rightarrow> Inl p
                     | Inr nonce \<Rightarrow>
                        (case slice_from cipherObject nonceSize of
                           Inl p \<Rightarrow> Inl p
                         | Inr actualCiphertext \<Rightarrow>
                            (case gcm_Open A aesGCM nonce actualCiphertext of
                               Inl err \<Rightarrow> Inl (Wrapped ''could not decrypt'' err)
                             | Inr plaintext \<Rightarrow> Inr plaintext)))))))"

definition GenerateRandomHexKey :: "rand_reader \<Rightarrow> (error + string) \<times> rand_reader" where
  "GenerateRandomHexKey r =
     (case io_ReadFull r 16 of
        (Inl err, r') \<Rightarrow> (Inl (Wrapped ''failed to generate random key bytes'' err), r')
      | (Inr key, r') \<Rightarrow> (Inr (hex_EncodeToString key), r'))"

section \<open>Package dto and the JSON encoding\<close>

text \<open>
  Modelled from the spec: the declaration of \<^verbatim>\<open>dto.Secret\<close> (package dto), the Secret
  Record of the data model: the message and the one-time flag. The handlers construct it
  as \<^verbatim>\<open>dto.Secret{Message: ..., OneTime: ...}\<close> and read both fields.

  \<^verbatim>\<open>json.Marshal\<close> and \<^verbatim>\<open>json.Unmarshal\<close> on that type are parameters of the model;
  each returns the bytes (the record) or an error.
\<close>

record Secret =
  Message :: string
  OneTime :: bool

record json =
  json_Marshal :: "Secret \<Rightarrow> string + byte list"
  json_Unmarshal :: "byte list \<Rightarrow> string + Secret"

section \<open>Package response\<close>

record Response =
  Status :: string
  Error :: string

definition StatusOK :: string where
  "StatusOK = ''OK''"

definition StatusError :: string where
  "StatusError = ''ERROR''"

definition resp_OK :: Response where
  "resp_OK = \<lparr>Status = StatusOK, Error = []\<rparr>"

definition resp_Error :: "string \<Rightarrow> Response" where
  "resp_Error msg = \<lparr>Status = StatusError, Error = msg\<rparr>"

record ValidationError =
  ve_Field :: string
  ve_Error :: string

record fetch_Response = Response +
  resp_Message :: string

record save_Response = Response +
  resp_Alias :: string
  resp_Key :: string

text \<open>
  What a handler leaves on the wire: the status code given to \<^verbatim>\<open>render.Status\<close> (200 when
  none is set) and the value given to \<^verbatim>\<open>render.JSON\<close>. A panic inside a handler writes no
  reply: the server aborts the request.
\<close>

datatype body =
    JSON_Response Response
  | JSON_Fetch fetch_Response
  | JSON_Save save_Response
  | JSON_Validation "ValidationError list"

datatype http = Reply nat body | Abort error

definition StatusBadRequest :: nat where
  "StatusBadRequest = 400"

definition StatusNotFound :: nat where
  "StatusNotFound = 404"

definition StatusInternalServerError :: nat where
  "StatusInternalServerError = 500"

definition http_StatusOK :: nat where
  "http_StatusOK = 200"

fun is_Panic :: "error \<Rightarrow> bool" where
  "is_Panic (Panic m) = True"
| "is_Panic e = False"

section \<open>Package fetch\<close>

text \<open>
  The \<^verbatim>\<open>SecretFetcher\<close> interface over a store state \<open>'s\<close>. \<open>Fetch\<close> returns the pair
  (bytes or nil, error or nil), \<open>Delete\<close> an error or nil; an error is represented by its
  message, which is all the handler reads of it. The URL parameters \<open>alias\<close> and \<open>key\<close>
  are the empty string when absent. In the success reply the embedded \<^verbatim>\<open>resp.OK()\<close> is
  written out as its two fields.
\<close>

record 's SecretFetcher =
  Fetch :: "string \<Rightarrow> 's \<Rightarrow> (byte list option \<times> string option) \<times> 's"
  Delete :: "string \<Rightarrow> 's \<Rightarrow> string option \<times> 's"

definition fetch_New ::
  "aead \<Rightarrow> json \<Rightarrow> 's SecretFetcher option \<Rightarrow> string \<Rightarrow> string \<Rightarrow> 's \<Rightarrow> http \<times> 's" where
  "fetch_New A J secretFetcher alias key s =
     (case secretFetcher of
        None \<Rightarrow>
          (Reply StatusInternalServerError (JSON_Response (resp_Error ''internal server error'')), s)
      | Some f \<Rightarrow>
          if alias = [] then
            (Reply StatusBadRequest (JSON_Response (resp_Error ''Alias parameter is missing'')), s)
          else if key = [] then
            (Reply StatusBadRequest (JSON_Response (resp_Error ''Key parameter is missing'')), s)
          else
            (case Fetch f alias s of
               ((cipherObject, Some err), s1) \<Rightarrow>
                 (Reply StatusInternalServerError (JSON_Response (resp_Error err)), s1)
             | ((None, None), s1) \<Rightarrow>
                 (Reply StatusNotFound (JSON_Response (resp_Error ''Secret not found'')), s1)
             | ((Some cipherObject, None), s1) \<Rightarrow>
                 (case Decode A cipherObject key of
                    Inl err \<Rightarrow>
                      if is_Panic err then (Abort err, s1)
                      else (Reply StatusInternalServerError
                              (JSON_Response (resp_Error ''Failed to decode secret'')), s1)
                  | Inr object \<Rightarrow>
                      (case json_Unmarshal J object of
                         Inl err \<Rightarrow>
                           (Reply StatusInternalServerError
                              (JSON_Response (resp_Error ''Secret unmarshalling failed'')), s1)
                       | Inr dest \<Rightarrow>
                           if OneTime dest then
                             (case Delete f alias s1 of
                                (Some err, s2) \<Rightarrow>
                                  (Reply StatusInternalServerError
                                     (JSON_Response (resp_Error ''Failed to delete secret'')), s2)
                              | (None, s2) \<Rightarrow>
                                  (Reply http_StatusOK
                                     (JSON_Fetch \<lparr>Status = StatusOK, Error = [],
                                        resp_Message = Message dest\<rparr>), s2))
                           else
                             (Reply http_StatusOK
                                (JSON_Fetch \<lparr>Status = StatusOK, Error = [],
                                   resp_Message = Message dest\<rparr>), s1)))))"

section \<open>github.com/gofrs/uuid\<close>

text \<open>
  \<^verbatim>\<open>uuid.NewV4\<close> reads 16 random bytes and stamps version 4 and the RFC variant; when the
  read fails it returns the nil UUID with the error. \<^verbatim>\<open>String\<close> renders the canonical
  8-4-4-4-12 form.
\<close>

definition uuid_Nil :: "byte list" where
  "uuid_Nil = replicate 16 0"

definition uuid_NewV4 :: "rand_reader \<Rightarrow> (byte list \<times> error option) \<times> rand_reader" where
  "uuid_NewV4 r =
     (case io_ReadFull r 16 of
        (Inl err, r') \<Rightarrow> ((uuid_Nil, Some err), r')
      | (Inr u, r') \<Rightarrow>
          ((u[6 := (u ! 6 AND 0x0f) OR 0x40, 8 := (u ! 8 AND 0x3f) OR 0x80], None), r'))"

definition uuid_String :: "byte list \<Rightarrow> string" where
  "uuid_String u =
     hex_EncodeToString (take 4 u) @ ''-'' @
     hex_EncodeToString (take 2 (drop 4 u)) @ ''-'' @
     hex_EncodeToString (take 2 (drop 6 u)) @ ''-'' @
     hex_EncodeToString (take 2 (drop 8 u)) @ ''-'' @
     hex_EncodeToString (drop 10 u)"

section \<open>Package save\<close>

text \<open>
  \<^verbatim>\<open>Request\<close>: the decoded body. \<open>Expiration\<close> is a Go \<^verbatim>\<open>int\<close>, 64 bits on the build
  target (GOARCH=amd64), read as a signed value.
\<close>

record Request =
  req_Message :: string
  req_Expiration :: "64 word"
  req_OneTime :: bool

text \<open>The outcome of \<^verbatim>\<open>render.DecodeJSON(r.Body, &req)\<close>.\<close>

datatype decode_result =
    Decoded Request
  | SyntaxError int
  | UnmarshalTypeError string string string
  | DecodeError

record 's SecretSaver =
  Set :: "string \<Rightarrow> byte list \<Rightarrow> 64 word \<Rightarrow> 's \<Rightarrow> string option \<times> 's"

text \<open>
  \<^verbatim>\<open>validate.Struct\<close> checks the \<^verbatim>\<open>validate\<close> tags of the struct. \<^verbatim>\<open>Request\<close> carries
  exactly one, \<^verbatim>\<open>required\<close> on \<^verbatim>\<open>Message\<close>, which fails on the zero value of the
  field, the empty string.
\<close>

record FieldError =
  fe_Field :: string
  fe_Tag :: string
  fe_Param :: string

datatype validate_error =
    ValidationErrors "FieldError list"
  | InvalidValidationError

definition validate_Struct :: "Request \<Rightarrow> validate_error option" where
  "validate_Struct req =
     (if req_Message req = []
      then Some (ValidationErrors [\<lparr>fe_Field = ''Message'', fe_Tag = ''required'', fe_Param = []\<rparr>])
      else None)"

definition to_lower :: "char \<Rightarrow> char" where
  "to_lower c =
     (let n = (of_char c :: nat) in if 65 \<le> n \<and> n \<le> 90 then char_of (n + 32) else c)"

definition strings_ToLower :: "string \<Rightarrow> string" where
  "strings_ToLower s = map to_lower s"

definition formatValidationError :: "FieldError \<Rightarrow> string" where
  "formatValidationError fe =
     (if fe_Tag fe = ''required'' then ''This field is required''
      else if fe_Tag fe = ''gte'' then ''Value must be greater than or equal to '' @ fe_Param fe
      else if fe_Tag fe = ''lte'' then ''Value must be less than or equal to '' @ fe_Param fe
      else ''Invalid value'')"

fun itoa_nat :: "nat \<Rightarrow> string" where
  "itoa_nat n =
     (if n < 10 then [char_of (48 + n)]
      else itoa_nat (n div 10) @ [char_of (48 + n mod 10)])"

definition itoa :: "int \<Rightarrow> string" where
  "itoa i = (if i < 0 then ''-'' @ itoa_nat (nat (- i)) else itoa_nat (nat i))"

definition time_Hour :: "64 word" where
  "time_Hour = 3600000000000"

definition save_New ::
  "aead \<Rightarrow> json \<Rightarrow> 's SecretSaver option \<Rightarrow> decode_result \<Rightarrow> rand_reader \<Rightarrow> 's
     \<Rightarrow> http \<times> rand_reader \<times> 's" where
  "save_New A J secretSaver decoded r s =
     (case secretSaver of
        None \<Rightarrow>
          (Reply StatusInternalServerError (JSON_Response (resp_Error ''internal server error'')),
           r, s)
      | Some saver \<Rightarrow>
          (case decoded of
             SyntaxError offset \<Rightarrow>
               (Reply StatusBadRequest (JSON_Response (resp_Error
                  (''Invalid JSON syntax near character '' @ itoa offset @ ''.''))), r, s)
           | UnmarshalTypeError field type val \<Rightarrow>
               (Reply StatusBadRequest (JSON_Response (resp_Error
                  (''Invalid type for field '' @ [CHR 0x27] @ field @ [CHR 0x27] @
                   ''. Expected type '' @ [CHR 0x27] @ type @ [CHR 0x27] @
                   '' but received JSON '' @ val @ ''.''))), r, s)
           | DecodeError \<Rightarrow>
               (Reply StatusBadRequest (JSON_Response (resp_Error
                  ''Failed to read or decode request body.'')), r, s)
           | Decoded req \<Rightarrow>
               (case validate_Struct req of
                  Some (ValidationErrors validationErrs) \<Rightarrow>
                    (Reply StatusBadRequest (JSON_Validation
                       (map (\<lambda>fe. \<lparr>ve_Field = strings_ToLower (fe_Field fe),
                                     ve_Error = formatValidationError fe\<rparr>) validationErrs)),
                     r, s)
                | Some InvalidValidationError \<Rightarrow>
                    (Reply StatusInternalServerError
                       (JSON_Response (resp_Error ''Error during validation'')), r, s)
                | None \<Rightarrow>
                    (let message = req_Message req;
                         ((uuid, _), r1) = uuid_NewV4 r;
                         alias = uuid_String uuid;
                         (k, r2) = GenerateRandomHexKey r1;
                         key = (case k of Inl err \<Rightarrow> [] | Inr key \<Rightarrow> key);
                         secret = \<lparr>Message = message, OneTime = req_OneTime req\<rparr>
                     in
                       (case json_Marshal J secret of
                          Inl err \<Rightarrow>
                            (Reply StatusInternalServerError
                               (JSON_Response (resp_Error ''Failed to marshal secret'')), r2, s)
                        | Inr object \<Rightarrow>
                            (case Encode A r2 object key of
                               (Inl err, r3) \<Rightarrow>
                                 if is_Panic err then (Abort err, r3, s)
                                 else (Reply StatusInternalServerError
                                         (JSON_Response (resp_Error ''Failed to encode secret'')),
                                       r3, s)
                             | (Inr cipherObject, r3) \<Rightarrow>
                                 (case Set saver alias cipherObject (req_Expiration req * time_Hour) s of
                                    (Some err, s1) \<Rightarrow>
                                      (Reply StatusInternalServerError
                                         (JSON_Response (resp_Error ''Url already exists'')), r3, s1)
                                  | (None, s1) \<Rightarrow>
                                      (Reply http_StatusOK
                                         (JSON_Save \<lparr>Status = StatusOK, Error = [],
                                            resp_Alias = alias, resp_Key = key\<rparr>), r3, s1))))))))"

section \<open>Package redis: the store\<close>

text \<open>
  Go's integer division and remainder truncate towards zero.
\<close>

definition go_div :: "int \<Rightarrow> int \<Rightarrow> int" where
  "go_div a b =
     (if (a < 0) = (b < 0) then \<bar>a\<bar> div \<bar>b\<bar> else - (\<bar>a\<bar> div \<bar>b\<bar>))"

definition go_mod :: "int \<Rightarrow> int \<Rightarrow> int" where
  "go_mod a b = a - b * go_div a b"

definition time_Millisecond :: int where
  "time_Millisecond = 1000000"

definition time_Second :: int where
  "time_Second = 1000000000"

text \<open>
  The go-redis client turns the expiration of \<^verbatim>\<open>Set\<close>, a duration in nanoseconds, into
  the argument of the command it sends: a positive duration that is less than a second or
  not a whole number of seconds goes out as \<^verbatim>\<open>PX\<close> in milliseconds, any other positive
  duration as \<^verbatim>\<open>EX\<close> in seconds, both truncated (and at least 1); the duration
  \<^verbatim>\<open>KeepTTL\<close> (-1) goes out as \<^verbatim>\<open>KEEPTTL\<close>; every other duration sends no expiry at all.
\<close>

definition usePrecise :: "int \<Rightarrow> bool" where
  "usePrecise dur = (dur < time_Second \<or> go_mod dur time_Second \<noteq> 0)"

definition formatMs :: "int \<Rightarrow> int" where
  "formatMs dur =
     (if 0 < dur \<and> dur < time_Millisecond then 1 else go_div dur time_Millisecond)"

definition formatSec :: "int \<Rightarrow> int" where
  "formatSec dur =
     (if 0 < dur \<and> dur < time_Second then 1 else go_div dur time_Second)"

definition KeepTTL :: "64 word" where
  "KeepTTL = - 1"

text \<open>The lifetime, in milliseconds, that a positive expiration gives the entry.\<close>

definition lifetime_ms :: "int \<Rightarrow> int" where
  "lifetime_ms dur = (if usePrecise dur then formatMs dur else formatSec dur * 1000)"

text \<open>
  The Redis server behind the client: the entries with their deadlines, the server's
  clock in milliseconds, and the connection failure the client would report, if any.
  \<^verbatim>\<open>SET\<close> with \<^verbatim>\<open>PX\<close> or \<^verbatim>\<open>EX\<close> puts the deadline that far after the clock, with
  \<^verbatim>\<open>KEEPTTL\<close> it keeps the deadline of the entry it replaces, and without any of them the
  entry has no deadline. \<^verbatim>\<open>GET\<close> answers \<^verbatim>\<open>redis.Nil\<close> for a key that is absent or whose
  deadline has been reached.
\<close>

record redis =
  entries :: "string \<rightharpoonup> (byte list \<times> int option)"
  clock :: int
  failure :: "string option"

datatype redis_error = redis_Nil | redis_Err string

definition kept_deadline :: "redis \<Rightarrow> string \<Rightarrow> int option" where
  "kept_deadline s key =
     (case entries s key of
        None \<Rightarrow> None
      | Some (val, None) \<Rightarrow> None
      | Some (val, Some deadline) \<Rightarrow> if clock s < deadline then Some deadline else None)"

definition client_Set :: "string \<Rightarrow> byte list \<Rightarrow> 64 word \<Rightarrow> redis \<Rightarrow> redis_error option \<times> redis" where
  "client_Set key val expiration s =
     (case failure s of
        Some m \<Rightarrow> (Some (redis_Err m), s)
      | None \<Rightarrow>
          (None, s\<lparr>entries := (entries s)(key \<mapsto>
             (val,
              if 0 < sint expiration then Some (clock s + lifetime_ms (sint expiration))
              else if expiration = KeepTTL then kept_deadline s key
              else None))\<rparr>))"

definition live :: "redis \<Rightarrow> string \<Rightarrow> byte list option" where
  "live s key =
     (case entries s key of
        None \<Rightarrow> None
      | Some (val, None) \<Rightarrow> Some val
      | Some (val, Some deadline) \<Rightarrow> if clock s < deadline then Some val else None)"

definition client_Get :: "string \<Rightarrow> redis \<Rightarrow> (byte list \<times> redis_error option) \<times> redis" where
  "client_Get key s =
     (case failure s of
        Some m \<Rightarrow> (([], Some (redis_Err m)), s)
      | None \<Rightarrow>
          (case live s key of
             None \<Rightarrow> (([], Some redis_Nil), s)
           | Some val \<Rightarrow> ((val, None), s)))"

definition client_Del :: "string \<Rightarrow> redis \<Rightarrow> redis_error option \<times> redis" where
  "client_Del key s =
     (case failure s of
        Some m \<Rightarrow> (Some (redis_Err m), s)
      | None \<Rightarrow> (None, s\<lparr>entries := (entries s)(key := None)\<rparr>))"

fun redis_Error :: "redis_error \<Rightarrow> string" where
  "redis_Error redis_Nil = ''redis: nil''"
| "redis_Error (redis_Err m) = m"

definition Store_Set :: "string \<Rightarrow> byte list \<Rightarrow> 64 word \<Rightarrow> redis \<Rightarrow> string option \<times> redis" where
  "Store_Set key val ttl s =
     (case client_Set key val ttl s of (err, s') \<Rightarrow> (map_option redis_Error err, s'))"

definition Store_Fetch :: "string \<Rightarrow> redis \<Rightarrow> (byte list option \<times> string option) \<times> redis" where
  "Store_Fetch key s =
     (case client_Get key s of
        ((object, Some redis_Nil), s') \<Rightarrow> ((None, None), s')
      | ((object, Some err), s') \<Rightarrow> ((None, Some (redis_Error err)), s')
      | ((object, None), s') \<Rightarrow> ((Some object, None), s'))"

definition Store_Delete :: "string \<Rightarrow> redis \<Rightarrow> string option \<times> redis" where
  "Store_Delete key s =
     (case client_Del key s of (err, s') \<Rightarrow> (map_option redis_Error err, s'))"

definition Store_fetcher :: "redis SecretFetcher" where
  "Store_fetcher = \<lparr>Fetch = Store_Fetch, Delete = Store_Delete\<rparr>"

definition Store_saver :: "redis SecretSaver" where
  "Store_saver = \<lparr>Set = Store_Set\<rparr>"

text \<open>Time passing between two requests: the server's clock advances by \<open>d\<close> milliseconds.\<close>

definition elapse :: "int \<Rightarrow> redis \<Rightarrow> redis" where
  "elapse d s = s\<lparr>clock := clock s + d\<rparr>"


section \<open>Key strings the codec accepts\<close>

text \<open>
  A key string is acceptable when it consists of hexadecimal digits only and is 32, 48 or
  64 characters long, that is, when it spells 16, 24 or 32 bytes.
\<close>

definition valid_hex_key :: "string \<Rightarrow> bool" where
  "valid_hex_key key = (list_all is_hex_digit key \<and> length key \<in> {32, 48, 64})"

section \<open>The test doubles of the handler tests\<close>

text \<open>
  \<^verbatim>\<open>MockSecretFetcher\<close> and \<^verbatim>\<open>MockSecretSaver\<close> return what the test case scripted and
  record every call; the state of the store is the list of calls made so far.
\<close>

datatype fetcher_call = Called_Fetch string | Called_Delete string

definition MockSecretFetcher ::
  "byte list option \<times> string option \<Rightarrow> string option \<Rightarrow> (fetcher_call list) SecretFetcher" where
  "MockSecretFetcher fetched deleted =
     \<lparr>Fetch = (\<lambda>key calls. (fetched, calls @ [Called_Fetch key])),
      Delete = (\<lambda>key calls. (deleted, calls @ [Called_Delete key]))\<rparr>"

datatype saver_call = Called_Set string "byte list" "64 word"

definition MockSecretSaver :: "string option \<Rightarrow> (saver_call list) SecretSaver" where
  "MockSecretSaver result =
     \<lparr>Set = (\<lambda>key val ttl calls. (result, calls @ [Called_Set key val ttl]))\<rparr>"

section \<open>Stand-ins for the library parameters\<close>

text \<open>
  The theorems below hold for every AEAD and every JSON encoding that meet the contract
  stated in their hypotheses. To run the handlers on concrete requests the two parameters
  need values: \<open>demo_aead\<close> appends a 16-byte tag taken from the key and checks it on
  opening, \<open>demo_json\<close> writes the flag byte followed by the message bytes. They stand for
  AES-GCM and \<^verbatim>\<open>encoding/json\<close> only in that they meet the same contract.
\<close>

definition demo_aead :: aead where
  "demo_aead =
     \<lparr>aead_Seal = (\<lambda>key nonce plaintext. plaintext @ take 16 key),
      aead_Open = (\<lambda>key nonce ciphertext.
         let n = length ciphertext - 16 in
         if 16 \<le> length ciphertext \<and> drop n ciphertext = take 16 key
         then Some (take n ciphertext) else None)\<rparr>"

definition byte_of_char :: "char \<Rightarrow> byte" where
  "byte_of_char c = of_nat (of_char c)"

definition char_of_byte :: "byte \<Rightarrow> char" where
  "char_of_byte b = char_of (unat b)"

definition demo_json :: json where
  "demo_json =
     \<lparr>json_Marshal = (\<lambda>x. Inr ((if OneTime x then 1 else 0) # map byte_of_char (Message x))),
      json_Unmarshal = (\<lambda>bs. case bs of
           [] \<Rightarrow> Inl ''unexpected end of JSON input''
         | b # rest \<Rightarrow> Inr \<lparr>Message = map char_of_byte rest, OneTime = (b \<noteq> 0)\<rparr>)\<rparr>"

definition demo_entropy :: rand_reader where
  "demo_entropy = map of_nat [0..<44]"

definition test_alias :: string where
  "test_alias = ''f7ab603e-fbae-4182-8379-8763d9327d51''"

definition test_key :: string where
  "test_key = ''46da5d3577209271242b42882a034c3d''"

definition test_wrong_key :: string where
  "test_wrong_key = ''46da5d3577209271242b42882a034c3e''"

text \<open>\<^verbatim>\<open>encodeForTest\<close> of the fetch tests: marshal, then \<open>Encode\<close> under the given key.\<close>

definition encodeForTest :: "Secret \<Rightarrow> string \<Rightarrow> byte list" where
  "encodeForTest data key =
     (case json_Marshal demo_json data of
        Inl err \<Rightarrow> []
      | Inr jsonData \<Rightarrow>
          (case fst (Encode demo_aead (take 12 demo_entropy) jsonData key) of
             Inl err \<Rightarrow> []
           | Inr encodedData \<Rightarrow> encodedData))"

section \<open>Values drawn by a successful create\<close>

text \<open>
  The values a successful run of the handler draws from the random source: bytes 0 to 15
  make the alias, bytes 16 to 31 the key, bytes 32 to 43 the nonce.
\<close>

definition new_alias :: "rand_reader \<Rightarrow> string" where
  "new_alias r = uuid_String (fst (fst (uuid_NewV4 r)))"

definition new_key_bytes :: "rand_reader \<Rightarrow> byte list" where
  "new_key_bytes r = take 16 (drop 16 r)"

definition new_key :: "rand_reader \<Rightarrow> string" where
  "new_key r = hex_EncodeToString (new_key_bytes r)"

definition new_nonce :: "rand_reader \<Rightarrow> byte list" where
  "new_nonce r = take 12 (drop 32 r)"

definition new_blob :: "aead \<Rightarrow> rand_reader \<Rightarrow> byte list \<Rightarrow> byte list" where
  "new_blob A r object = new_nonce r @ aead_Seal A (new_key_bytes r) (new_nonce r) object"

text \<open>A store that is up, empty, at time 0.\<close>

definition store_up :: redis where
  "store_up = \<lparr>entries = Map.empty, clock = 0, failure = None\<rparr>"

section \<open>Hexadecimal encoding round trip\<close>

lemma nibble_cases:
  fixes n :: nat
  assumes "n < 16"
  shows "n \<in> {0, 1, 2, 3, 4, 5, 6, 7, 8, 9, 10, 11, 12, 13, 14, 15}"
  using assms by simp arith

lemma fromHexChar_hextable:
  assumes "n < 16"
  shows "fromHexChar (hextable ! n) = Some (of_nat n)"
  using nibble_cases [OF assms] by (auto simp: hextable_def fromHexChar_def)

lemma unat_high_nibble: "unat (drop_bit 4 (v :: byte)) < 16"
proof -
  have "unat (drop_bit 4 v) = drop_bit 4 (unat v)"
    by (simp add: unat_drop_bit_eq)
  then have "unat (drop_bit 4 v) = unat v div 16"
    by (simp add: drop_bit_eq_div)
  moreover have "unat v < 256"
    using unsigned_less [of v] by simp
  ultimately show ?thesis by simp
qed

lemma low_nibble_take_bit: "(v :: byte) AND 0x0f = take_bit 4 v"
proof -
  have "(15 :: byte) = mask 4" by (simp add: mask_eq_exp_minus_1)
  then show ?thesis by (simp add: take_bit_eq_mask)
qed

lemma unat_low_nibble: "unat ((v :: byte) AND 0x0f) < 16"
proof -
  have "unat (take_bit 4 v) = take_bit 4 (unat v)"
    by (simp add: unsigned_take_bit_eq)
  also have "\<dots> < 2 ^ 4" by (rule take_bit_nat_less_exp)
  finally show ?thesis by (simp add: low_nibble_take_bit)
qed

lemma nibbles_join: "push_bit 4 (drop_bit 4 v) OR (v AND 0x0f) = (v :: byte)"
  unfolding low_nibble_take_bit
  by (rule bit_word_eqI) (auto simp: bit_simps)

lemma hex_Decode_EncodeByte:
  "hex_DecodeString (hex_EncodeByte v @ rest) =
     (case hex_DecodeString rest of Inl e \<Rightarrow> Inl e | Inr bs \<Rightarrow> Inr (v # bs))"
  by (simp add: hex_EncodeByte_def fromHexChar_hextable unat_high_nibble unat_low_nibble
      nibbles_join split: sum.splits)

lemma hex_Decode_Encode: "hex_DecodeString (hex_EncodeToString bs) = Inr bs"
  by (induction bs) (simp_all add: hex_EncodeToString_def hex_Decode_EncodeByte)

lemma length_hex_EncodeToString: "length (hex_EncodeToString bs) = 2 * length bs"
  by (induction bs) (simp_all add: hex_EncodeToString_def hex_EncodeByte_def)

lemma hex_digits_EncodeToString: "list_all is_hex_digit (hex_EncodeToString bs)"
  by (induction bs)
    (simp_all add: hex_EncodeToString_def hex_EncodeByte_def is_hex_digit_def
      fromHexChar_hextable unat_high_nibble unat_low_nibble)

section \<open>The cipher package: key handling\<close>

lemma io_ReadFull_enough:
  "n \<le> length r \<Longrightarrow> io_ReadFull r n = (Inr (take n r), drop n r)"
  by (simp add: io_ReadFull_def)

lemma io_ReadFull_Inr:
  "io_ReadFull r n = (Inr bs, r') \<Longrightarrow> n \<le> length r \<and> bs = take n r \<and> r' = drop n r"
  by (simp add: io_ReadFull_def split: if_splits)

lemma hex_DecodeString_Inr_iff:
  "(\<exists>bs. hex_DecodeString s = Inr bs) \<longleftrightarrow> list_all is_hex_digit s \<and> even (length s)"
  by (induction s rule: induct_list012)
    (auto simp: is_hex_digit_def split: option.splits sum.splits)

lemma hex_DecodeString_length:
  "hex_DecodeString s = Inr bs \<Longrightarrow> length s = 2 * length bs"
  by (induction s arbitrary: bs rule: induct_list012)
    (auto split: option.splits sum.splits)

lemma key_setup_iff:
  "valid_hex_key key \<longleftrightarrow> (\<exists>kb. hex_DecodeString key = Inr kb \<and> aes_NewCipher kb = Inr (Block kb))"
proof
  assume v: "valid_hex_key key"
  then have "list_all is_hex_digit key \<and> even (length key)"
    by (auto simp: valid_hex_key_def)
  then obtain kb where kb: "hex_DecodeString key = Inr kb"
    using hex_DecodeString_Inr_iff by blast
  from hex_DecodeString_length [OF kb] v have "length kb \<in> {16, 24, 32}"
    by (auto simp: valid_hex_key_def)
  then have "aes_NewCipher kb = Inr (Block kb)"
    by (auto simp: aes_NewCipher_def)
  with kb show "\<exists>kb. hex_DecodeString key = Inr kb \<and> aes_NewCipher kb = Inr (Block kb)"
    by blast
next
  assume "\<exists>kb. hex_DecodeString key = Inr kb \<and> aes_NewCipher kb = Inr (Block kb)"
  then obtain kb where kb: "hex_DecodeString key = Inr kb"
    and blk: "aes_NewCipher kb = Inr (Block kb)" by blast
  from blk have "length kb \<in> {16, 24, 32}"
    by (auto simp: aes_NewCipher_def Let_def split: if_splits)
  moreover from kb have "list_all is_hex_digit key"
    using hex_DecodeString_Inr_iff by blast
  ultimately show "valid_hex_key key"
    using hex_DecodeString_length [OF kb] by (auto simp: valid_hex_key_def)
qed

lemma Encode_valid_key:
  assumes "hex_DecodeString key = Inr kb" and "aes_NewCipher kb = Inr (Block kb)"
  shows "Encode A r object key =
     (if 12 \<le> length r then (Inr (take 12 r @ aead_Seal A kb (take 12 r) object), drop 12 r)
      else (Inl (Wrapped ''could not generate nonce''
                   (if r = [] then EOF else ErrUnexpectedEOF)), []))"
  using assms by (simp add: Encode_def NonceSize_def io_ReadFull_def)

lemma Encode_invalid_key:
  assumes "\<not> valid_hex_key key"
  shows "\<exists>e. Encode A r object key = (Inl e, r) \<and> \<not> is_Panic e"
proof (cases "hex_DecodeString key")
  case (Inl e)
  then have "e = ErrLength \<or> (\<exists>c. e = InvalidByteError c)"
    by (induction key rule: induct_list012) (auto split: option.splits sum.splits)
  with Inl show ?thesis by (auto simp: Encode_def)
next
  case (Inr kb)
  with assms have "aes_NewCipher kb \<noteq> Inr (Block kb)"
    using key_setup_iff by blast
  then have "aes_NewCipher kb = Inl (KeySizeError (length kb))"
    by (auto simp: aes_NewCipher_def Let_def split: if_splits)
  with Inr show ?thesis by (simp add: Encode_def)
qed

lemma Decode_valid_key:
  assumes "hex_DecodeString key = Inr kb" and "aes_NewCipher kb = Inr (Block kb)"
  shows "Decode A c key =
     (if length c < 12 then Inl (Errorf ''ciphertext too short'')
      else (case aead_Open A kb (take 12 c) (drop 12 c) of
              None \<Rightarrow> Inl (Wrapped ''could not decrypt'' ErrOpen)
            | Some plaintext \<Rightarrow> Inr plaintext))"
  using assms
  by (simp add: Decode_def NonceSize_def slice_to_def slice_from_def split: option.splits)

lemma Decode_invalid_key:
  assumes "\<not> valid_hex_key key"
  shows "\<exists>e. Decode A c key = Inl e \<and> \<not> is_Panic e"
proof (cases "hex_DecodeString key")
  case (Inl e)
  then show ?thesis by (simp add: Decode_def)
next
  case (Inr kb)
  with assms have "aes_NewCipher kb \<noteq> Inr (Block kb)"
    using key_setup_iff by blast
  then have "aes_NewCipher kb = Inl (KeySizeError (length kb))"
    by (auto simp: aes_NewCipher_def Let_def split: if_splits)
  with Inr show ?thesis by (simp add: Decode_def)
qed

lemma Decode_never_panics: "Decode A c key = Inl e \<Longrightarrow> \<not> is_Panic e"
proof (cases "valid_hex_key key")
  case True
  assume d: "Decode A c key = Inl e"
  from True obtain kb where "hex_DecodeString key = Inr kb" "aes_NewCipher kb = Inr (Block kb)"
    using key_setup_iff by blast
  from Decode_valid_key [OF this, of A c] d show ?thesis
    by (auto split: if_splits option.splits)
next
  case False
  assume "Decode A c key = Inl e"
  with Decode_invalid_key [OF False, of A c] show ?thesis by auto
qed

section \<open>The cipher package: claims\<close>

lemma hex_EncodeToString_lowercase: "set (hex_EncodeToString bs) \<subseteq> set hextable"
proof (induction bs)
  case Nil
  show ?case by (simp add: hex_EncodeToString_def)
next
  case (Cons b bs)
  have "length hextable = 16" by (simp add: hextable_def)
  then have "hextable ! unat (drop_bit 4 b) \<in> set hextable"
    and "hextable ! unat (b AND 0x0f) \<in> set hextable"
    using unat_high_nibble [of b] unat_low_nibble [of b] by simp_all
  with Cons show ?case
    by (simp add: hex_EncodeToString_def hex_EncodeByte_def)
qed

text \<open>
  C8. Every successful output of \<open>GenerateRandomHexKey\<close> is a string of exactly 32
  lower-case hexadecimal digits that decodes to exactly 16 bytes, the bytes read from
  the random source.
\<close>

theorem GenerateRandomHexKey_fixed_length:
  assumes "GenerateRandomHexKey r = (Inr key, r')"
  shows "length key = 32 \<and> set key \<subseteq> set hextable \<and> list_all is_hex_digit key \<and>
         hex_DecodeString key = Inr (take 16 r) \<and> length (take 16 r) = 16"
proof -
  from assms obtain bs where rd: "io_ReadFull r 16 = (Inr bs, r')"
    and key: "key = hex_EncodeToString bs"
    by (auto simp: GenerateRandomHexKey_def split: prod.splits sum.splits)
  from io_ReadFull_Inr [OF rd] have bs: "bs = take 16 r" and len: "16 \<le> length r"
    by simp_all
  from len have "length (take 16 r) = 16" by simp
  with key bs show ?thesis
    by (simp add: length_hex_EncodeToString hex_Decode_Encode hex_digits_EncodeToString
        hex_EncodeToString_lowercase)
qed

theorem GenerateRandomHexKey_fixed_length_witness:
  "GenerateRandomHexKey demo_entropy = (Inr ''000102030405060708090a0b0c0d0e0f'', drop 16 demo_entropy)
   \<and> length ''000102030405060708090a0b0c0d0e0f'' = 32
   \<and> hex_DecodeString ''000102030405060708090a0b0c0d0e0f'' = Inr (take 16 demo_entropy)"
proof -
  have run: "GenerateRandomHexKey demo_entropy =
      (Inr ''000102030405060708090a0b0c0d0e0f'', drop 16 demo_entropy)"
    by code_simp
  from GenerateRandomHexKey_fixed_length [OF run] run show ?thesis by simp
qed

lemma Encode_Inr_iff:
  assumes "12 \<le> length r"
  shows "(\<exists>sealed. fst (Encode A r object key) = Inr sealed) \<longleftrightarrow> valid_hex_key key"
proof (cases "valid_hex_key key")
  case True
  then obtain kb where "hex_DecodeString key = Inr kb" "aes_NewCipher kb = Inr (Block kb)"
    using key_setup_iff by blast
  from Encode_valid_key [OF this, of A r object] assms True show ?thesis by simp
next
  case False
  from Encode_invalid_key [OF False, of A r object] False show ?thesis by auto
qed

text \<open>
  C10. Provided the random source delivers the 12 bytes of the nonce, \<open>Encode\<close> returns a
  sealed blob exactly when the key string is valid hexadecimal for 16, 24 or 32 bytes;
  for every other key string it returns an error, and so does \<open>Decode\<close>.
\<close>

theorem Encode_succeeds_iff_valid_key:
  assumes "12 \<le> length r"
  shows "((\<exists>sealed. fst (Encode A r object key) = Inr sealed) \<longleftrightarrow> valid_hex_key key) \<and>
         (\<not> valid_hex_key key \<longrightarrow> isl (fst (Encode A r' object key)) \<and> isl (Decode A c key))"
proof -
  have "isl (fst (Encode A r' object key)) \<and> isl (Decode A c key)" if bad: "\<not> valid_hex_key key"
    using Encode_invalid_key [OF bad, of A r' object] Decode_invalid_key [OF bad, of A c]
    by auto
  with Encode_Inr_iff [OF assms] show ?thesis by blast
qed

lemma valid_hex_key_examples:
  "valid_hex_key test_key"
  "valid_hex_key (test_key @ ''0011223344556677'')"
  "valid_hex_key (test_key @ test_key)"
  "\<not> valid_hex_key ''zz''"
  "\<not> valid_hex_key ''46da''"
  by code_simp+

theorem Encode_succeeds_iff_valid_key_witness:
  "12 \<le> length demo_entropy
   \<and> (\<exists>sealed. fst (Encode demo_aead demo_entropy [1, 2, 3] test_key) = Inr sealed)
   \<and> (\<exists>sealed. fst (Encode demo_aead demo_entropy [1, 2, 3] (test_key @ ''0011223344556677'')) = Inr sealed)
   \<and> (\<exists>sealed. fst (Encode demo_aead demo_entropy [1, 2, 3] (test_key @ test_key)) = Inr sealed)
   \<and> isl (fst (Encode demo_aead demo_entropy [1, 2, 3] ''zz''))
   \<and> isl (fst (Encode demo_aead demo_entropy [1, 2, 3] ''46da''))
   \<and> isl (Decode demo_aead [] ''46da'')"
proof -
  have len: "12 \<le> length demo_entropy" by (simp add: demo_entropy_def)
  show ?thesis
    using len Encode_succeeds_iff_valid_key [OF len, where A = demo_aead and object = "[1, 2, 3]"
        and r' = demo_entropy and c = "[]"]
      valid_hex_key_examples
    by blast
qed

text \<open>C7, as stated: fails for a key that is not a valid key string.\<close>

theorem Decode_short_blob_counterexample:
  "Decode demo_aead [] ''zz'' = Inl (Wrapped ''invalid hex key'' (InvalidByteError CHR ''z''))
   \<and> Decode demo_aead [] ''zz'' \<noteq> Inl (Errorf ''ciphertext too short'')"
  by code_simp

lemma Decode_short:
  assumes "length c < 12"
  shows "(\<exists>e. Decode A c key = Inl e \<and> \<not> is_Panic e) \<and>
         (Decode A c key = Inl (Errorf ''ciphertext too short'') \<longleftrightarrow> valid_hex_key key)"
proof (cases "valid_hex_key key")
  case True
  then obtain kb where "hex_DecodeString key = Inr kb" "aes_NewCipher kb = Inr (Block kb)"
    using key_setup_iff by blast
  from Decode_valid_key [OF this, of A c] True assms show ?thesis by simp
next
  case False
  have "Decode A c key \<noteq> Inl (Errorf ''ciphertext too short'')"
  proof (cases "hex_DecodeString key")
    case (Inl e)
    then show ?thesis by (simp add: Decode_def)
  next
    case (Inr kb)
    with False have "aes_NewCipher kb \<noteq> Inr (Block kb)"
      using key_setup_iff by blast
    then have "aes_NewCipher kb = Inl (KeySizeError (length kb))"
      by (auto simp: aes_NewCipher_def Let_def split: if_splits)
    with Inr show ?thesis by (simp add: Decode_def)
  qed
  with Decode_invalid_key [OF False, of A c] False show ?thesis by simp
qed

lemma Decode_long:
  assumes "12 \<le> length c" and "hex_DecodeString key = Inr kb" and "valid_hex_key key"
  shows "Decode A c key =
           (case aead_Open A kb (take 12 c) (drop 12 c) of
              None \<Rightarrow> Inl (Wrapped ''could not decrypt'' ErrOpen)
            | Some plaintext \<Rightarrow> Inr plaintext)"
proof -
  from assms have "aes_NewCipher kb = Inr (Block kb)"
    using key_setup_iff [of key] by auto
  from Decode_valid_key [OF assms(2) this, of A c] assms(1) show ?thesis by simp
qed

text \<open>
  C7, amended. For a blob shorter than the 12-byte nonce \<open>Decode\<close> fails for every key and
  never reads out of bounds; the error is "ciphertext too short" exactly when the key is
  a valid key string (an invalid key is rejected first, with the key's own error). For a
  valid key and a blob of at least 12 bytes the nonce handed to the AEAD is exactly the
  first 12 bytes, and the rest is the ciphertext.
\<close>

theorem Decode_short_blob:
  "(length c < 12 \<longrightarrow>
      (\<exists>e. Decode A c key = Inl e \<and> \<not> is_Panic e) \<and>
      (Decode A c key = Inl (Errorf ''ciphertext too short'') \<longleftrightarrow> valid_hex_key key)) \<and>
   (12 \<le> length c \<and> hex_DecodeString key = Inr kb \<and> valid_hex_key key \<longrightarrow>
      Decode A c key =
        (case aead_Open A kb (take 12 c) (drop 12 c) of
           None \<Rightarrow> Inl (Wrapped ''could not decrypt'' ErrOpen)
         | Some plaintext \<Rightarrow> Inr plaintext) \<and>
      length (take 12 c) = 12 \<and> take 12 c @ drop 12 c = c) \<and>
   (\<forall>e. Decode A c key = Inl e \<longrightarrow> \<not> is_Panic e)"
  using Decode_short [of c A key] Decode_long [of c key kb A] Decode_never_panics [of A c key]
  by simp

theorem Decode_short_blob_witness:
  "length [1, 2, 3 :: byte] < 12
   \<and> Decode demo_aead [1, 2, 3] test_key = Inl (Errorf ''ciphertext too short'')
   \<and> \<not> is_Panic (Errorf ''ciphertext too short'')
   \<and> isl (Decode demo_aead [1, 2, 3] ''zz'')
   \<and> 12 \<le> length (encodeForTest \<lparr>Message = ''hello world'', OneTime = False\<rparr> test_key)
   \<and> Decode demo_aead (encodeForTest \<lparr>Message = ''hello world'', OneTime = False\<rparr> test_key) test_key
       = Inr (0 # map byte_of_char ''hello world'')"
proof -
  let ?blob = "encodeForTest \<lparr>Message = ''hello world'', OneTime = False\<rparr> test_key"
  let ?kb = "[70, 218, 93, 53, 119, 32, 146, 113, 36, 43, 66, 136, 42, 3, 76, 61] :: byte list"
  have v: "valid_hex_key test_key" by (rule valid_hex_key_examples)
  have short: "length [1, 2, 3 :: byte] < 12" by simp
  have long: "12 \<le> length ?blob" by code_simp
  have kb: "hex_DecodeString test_key = Inr ?kb" by code_simp
  have opened: "aead_Open demo_aead ?kb (take 12 ?blob) (drop 12 ?blob)
      = Some (0 # map byte_of_char ''hello world'')"
    by code_simp
  from Decode_short_blob [of "[1, 2, 3]" demo_aead test_key] short v
  have a: "Decode demo_aead [1, 2, 3] test_key = Inl (Errorf ''ciphertext too short'')"
    and p: "\<not> is_Panic (Errorf ''ciphertext too short'')"
    by simp_all
  from Decode_short_blob [of "[1, 2, 3]" demo_aead "''zz''"] short
  have b: "isl (Decode demo_aead [1, 2, 3] ''zz'')" by auto
  from Decode_short_blob [of ?blob demo_aead test_key ?kb] long kb v opened
  have c: "Decode demo_aead ?blob test_key = Inr (0 # map byte_of_char ''hello world'')"
    by simp
  from a b c p short long show ?thesis by simp
qed

section \<open>The fetch handler\<close>

lemma fetch_New_fetched:
  assumes "alias \<noteq> []" and "key \<noteq> []" and "Fetch f alias s = ((Some c, None), s1)"
  shows "fetch_New A J (Some f) alias key s =
     (case Decode A c key of
        Inl err \<Rightarrow>
          (Reply StatusInternalServerError (JSON_Response (resp_Error ''Failed to decode secret'')), s1)
      | Inr object \<Rightarrow>
          (case json_Unmarshal J object of
             Inl err \<Rightarrow>
               (Reply StatusInternalServerError
                  (JSON_Response (resp_Error ''Secret unmarshalling failed'')), s1)
           | Inr dest \<Rightarrow>
               if OneTime dest then
                 (case Delete f alias s1 of
                    (Some err, s2) \<Rightarrow>
                      (Reply StatusInternalServerError
                         (JSON_Response (resp_Error ''Failed to delete secret'')), s2)
                  | (None, s2) \<Rightarrow>
                      (Reply http_StatusOK
                         (JSON_Fetch \<lparr>Status = StatusOK, Error = [],
                            resp_Message = Message dest\<rparr>), s2))
               else
                 (Reply http_StatusOK
                    (JSON_Fetch \<lparr>Status = StatusOK, Error = [],
                       resp_Message = Message dest\<rparr>), s1)))"
  using assms Decode_never_panics [of A c key]
  by (auto simp: fetch_New_def split: sum.splits)

lemma fetch_New_store_error:
  assumes "alias \<noteq> []" and "key \<noteq> []" and "Fetch f alias s = ((c, Some err), s1)"
  shows "fetch_New A J (Some f) alias key s =
     (Reply StatusInternalServerError (JSON_Response (resp_Error err)), s1)"
  using assms by (simp add: fetch_New_def split: option.splits)

lemma fetch_New_absent:
  assumes "alias \<noteq> []" and "key \<noteq> []" and "Fetch f alias s = ((None, None), s1)"
  shows "fetch_New A J (Some f) alias key s =
     (Reply StatusNotFound (JSON_Response (resp_Error ''Secret not found'')), s1)"
  using assms by (simp add: fetch_New_def)

lemma test_strings_nonempty: "test_alias \<noteq> []" "test_key \<noteq> []" "test_wrong_key \<noteq> []"
  by (simp_all add: test_alias_def test_key_def test_wrong_key_def)

text \<open>
  C9. A retrieve request whose alias or key parameter is empty is answered with 400 and a
  message naming the missing parameter (the alias when both are missing). The reply does
  not depend on the store and the store's state is returned as it was: neither \<open>Fetch\<close>
  nor \<open>Delete\<close> is called.
\<close>

theorem fetch_missing_parameter:
  assumes "alias = [] \<or> key = []"
  shows "fetch_New A J (Some f) alias key s =
     (Reply StatusBadRequest (JSON_Response (resp_Error
        (if alias = [] then ''Alias parameter is missing'' else ''Key parameter is missing''))), s)"
  using assms by (auto simp: fetch_New_def)

theorem fetch_missing_parameter_witness:
  "fetch_New demo_aead demo_json (Some (MockSecretFetcher (None, None) None)) [] test_key [] =
     (Reply 400 (JSON_Response \<lparr>Status = ''ERROR'', Error = ''Alias parameter is missing''\<rparr>), [])
   \<and> fetch_New demo_aead demo_json (Some (MockSecretFetcher (None, None) None)) test_alias [] [] =
     (Reply 400 (JSON_Response \<lparr>Status = ''ERROR'', Error = ''Key parameter is missing''\<rparr>), [])"
  using fetch_missing_parameter [of "[]" test_key demo_aead demo_json
      "MockSecretFetcher (None, None) None" "[]"]
    fetch_missing_parameter [of test_alias "[]" demo_aead demo_json
      "MockSecretFetcher (None, None) None" "[]"]
    test_strings_nonempty
  by (simp add: StatusBadRequest_def resp_Error_def StatusError_def)

text \<open>
  C3. In every retrieval that reaches a decoded secret whose one-time flag is set, the
  handler calls \<open>Delete\<close> on the alias, in the state \<open>Fetch\<close> left, before it replies. When
  \<open>Delete\<close> returns an error the reply is 500 "Failed to delete secret" and carries no
  message; the message is sent only when \<open>Delete\<close> succeeded.
\<close>

theorem fetch_one_time_deletes_first:
  assumes "alias \<noteq> []" and "key \<noteq> []"
    and "Fetch f alias s = ((Some c, None), s1)"
    and "Decode A c key = Inr object"
    and "json_Unmarshal J object = Inr dest"
    and "OneTime dest"
  shows "fetch_New A J (Some f) alias key s =
     (case Delete f alias s1 of
        (Some err, s2) \<Rightarrow>
          (Reply StatusInternalServerError (JSON_Response (resp_Error ''Failed to delete secret'')), s2)
      | (None, s2) \<Rightarrow>
          (Reply http_StatusOK
             (JSON_Fetch \<lparr>Status = StatusOK, Error = [], resp_Message = Message dest\<rparr>), s2))"
  using fetch_New_fetched [OF assms(1-3), of A J] assms(4-6) by simp

lemma vanish_blob:
  "Decode demo_aead (encodeForTest \<lparr>Message = ''this will vanish'', OneTime = True\<rparr> test_key) test_key
     = Inr (1 # map byte_of_char ''this will vanish'')"
  "json_Unmarshal demo_json (1 # map byte_of_char ''this will vanish'')
     = Inr \<lparr>Message = ''this will vanish'', OneTime = True\<rparr>"
  by code_simp+

theorem fetch_one_time_deletes_first_witness:
  "fetch_New demo_aead demo_json
      (Some (MockSecretFetcher
         (Some (encodeForTest \<lparr>Message = ''this will vanish'', OneTime = True\<rparr> test_key), None)
         (Some ''db error'')))
      test_alias test_key [] =
     (Reply 500 (JSON_Response \<lparr>Status = ''ERROR'', Error = ''Failed to delete secret''\<rparr>),
      [Called_Fetch test_alias, Called_Delete test_alias])
   \<and> fetch_New demo_aead demo_json
      (Some (MockSecretFetcher
         (Some (encodeForTest \<lparr>Message = ''this will vanish'', OneTime = True\<rparr> test_key), None)
         None))
      test_alias test_key [] =
     (Reply 200 (JSON_Fetch \<lparr>Status = ''OK'', Error = [], resp_Message = ''this will vanish''\<rparr>),
      [Called_Fetch test_alias, Called_Delete test_alias])"
proof -
  let ?blob = "encodeForTest \<lparr>Message = ''this will vanish'', OneTime = True\<rparr> test_key"
  have f: "Fetch (MockSecretFetcher (Some ?blob, None) d) test_alias [] =
      ((Some ?blob, None), [Called_Fetch test_alias])" for d
    by (simp add: MockSecretFetcher_def)
  have one: "OneTime \<lparr>Message = ''this will vanish'', OneTime = True\<rparr>" by simp
  show ?thesis
    using fetch_one_time_deletes_first [OF test_strings_nonempty(1,2) f vanish_blob one,
        of "Some ''db error''"]
      fetch_one_time_deletes_first [OF test_strings_nonempty(1,2) f vanish_blob one, of None]
    by (simp add: MockSecretFetcher_def StatusInternalServerError_def http_StatusOK_def
        resp_Error_def StatusError_def StatusOK_def)
qed

text \<open>
  C2. When the stored blob does not open under the key of the request, the reply is 500
  "Failed to decode secret"; an unknown alias is answered with 404 "Secret not found".
  The two replies differ in status and in text.
\<close>

theorem fetch_wrong_key_reply:
  assumes "alias \<noteq> []" and "key \<noteq> []"
    and "Fetch f alias s = ((Some c, None), s1)"
    and "Decode A c key = Inl err"
  shows "fetch_New A J (Some f) alias key s =
           (Reply StatusInternalServerError
              (JSON_Response (resp_Error ''Failed to decode secret'')), s1) \<and>
         fst (fetch_New A J (Some f) alias key s) \<noteq>
           Reply StatusNotFound (JSON_Response (resp_Error ''Secret not found''))"
  using fetch_New_fetched [OF assms(1-3), of A J] assms(4)
  by (simp add: StatusInternalServerError_def StatusNotFound_def)

lemma wrong_key_blob:
  "Decode demo_aead (encodeForTest \<lparr>Message = ''cant decode this'', OneTime = False\<rparr> test_key)
     test_wrong_key = Inl (Wrapped ''could not decrypt'' ErrOpen)"
  by code_simp

theorem fetch_wrong_key_reply_witness:
  "fetch_New demo_aead demo_json
      (Some (MockSecretFetcher
         (Some (encodeForTest \<lparr>Message = ''cant decode this'', OneTime = False\<rparr> test_key), None)
         None))
      test_alias test_wrong_key [] =
     (Reply 500 (JSON_Response \<lparr>Status = ''ERROR'', Error = ''Failed to decode secret''\<rparr>),
      [Called_Fetch test_alias])
   \<and> fetch_New demo_aead demo_json (Some (MockSecretFetcher (None, None) None))
      test_alias test_wrong_key [] =
     (Reply 404 (JSON_Response \<lparr>Status = ''ERROR'', Error = ''Secret not found''\<rparr>),
      [Called_Fetch test_alias])"
proof -
  let ?blob = "encodeForTest \<lparr>Message = ''cant decode this'', OneTime = False\<rparr> test_key"
  have f: "Fetch (MockSecretFetcher (Some ?blob, None) None) test_alias [] =
      ((Some ?blob, None), [Called_Fetch test_alias])"
    by (simp add: MockSecretFetcher_def)
  have g: "Fetch (MockSecretFetcher (None, None) None) test_alias [] =
      ((None, None), [Called_Fetch test_alias])"
    by (simp add: MockSecretFetcher_def)
  show ?thesis
    using fetch_wrong_key_reply [OF test_strings_nonempty(1,3) f wrong_key_blob,
        of demo_json]
      fetch_New_absent [OF test_strings_nonempty(1,3) g, of demo_aead demo_json]
    by (simp add: StatusInternalServerError_def StatusNotFound_def resp_Error_def StatusError_def)
qed

text \<open>
  C5. When the store's \<open>Fetch\<close> returns an error, the reply is 500 and its error text is
  the message of the storage error, passed through to the caller unchanged. The other
  failure branches of the handler (decode, unmarshal, delete) answer with fixed texts.
\<close>

theorem fetch_store_error_passed_through:
  assumes "alias \<noteq> []" and "key \<noteq> []" and "Fetch f alias s = ((c, Some err), s1)"
  shows "fetch_New A J (Some f) alias key s =
     (Reply StatusInternalServerError (JSON_Response \<lparr>Status = StatusError, Error = err\<rparr>), s1)"
  using fetch_New_store_error [OF assms, of A J] by (simp add: resp_Error_def)

theorem fetch_store_error_passed_through_witness:
  "fetch_New demo_aead demo_json
      (Some (MockSecretFetcher (None, Some ''internal storage error'') None))
      test_alias test_key [] =
     (Reply 500 (JSON_Response \<lparr>Status = ''ERROR'', Error = ''internal storage error''\<rparr>),
      [Called_Fetch test_alias])
   \<and> fetch_New demo_aead demo_json
      (Some (MockSecretFetcher
         (None, Some ''dial tcp 10.0.0.5:6379: connect: connection refused'') None))
      test_alias test_key [] =
     (Reply 500 (JSON_Response
        \<lparr>Status = ''ERROR'', Error = ''dial tcp 10.0.0.5:6379: connect: connection refused''\<rparr>),
      [Called_Fetch test_alias])"
proof -
  have f: "Fetch (MockSecretFetcher (None, Some err) None) test_alias [] =
      ((None, Some err), [Called_Fetch test_alias])" for err
    by (simp add: MockSecretFetcher_def)
  show ?thesis
    using fetch_store_error_passed_through [OF test_strings_nonempty(1,2) f, of demo_aead demo_json]
    by (simp add: StatusInternalServerError_def StatusError_def)
qed

section \<open>The save handler\<close>

lemma validate_Struct_None_iff: "validate_Struct req = None \<longleftrightarrow> req_Message req \<noteq> []"
  by (simp add: validate_Struct_def)

lemma save_New_invalid:
  assumes "req_Message req = []"
  shows "save_New A J (Some saver) (Decoded req) r s =
     (Reply StatusBadRequest
        (JSON_Validation [\<lparr>ve_Field = ''message'', ve_Error = ''This field is required''\<rparr>]), r, s)"
proof -
  have "strings_ToLower ''Message'' = ''message''"
    by code_simp
  with assms show ?thesis
    by (simp add: save_New_def validate_Struct_def formatValidationError_def)
qed

lemma uuid_NewV4_enough:
  assumes "16 \<le> length r"
  shows "\<exists>u. uuid_NewV4 r = ((u, None), drop 16 r) \<and> length u = 16"
  using assms by (simp add: uuid_NewV4_def io_ReadFull_def)


lemma GenerateRandomHexKey_enough:
  assumes "16 \<le> length r"
  shows "GenerateRandomHexKey r = (Inr (hex_EncodeToString (take 16 r)), drop 16 r)"
  using assms by (simp add: GenerateRandomHexKey_def io_ReadFull_def)

lemma generated_key_setup:
  assumes "length kb = 16"
  shows "hex_DecodeString (hex_EncodeToString kb) = Inr kb" and "aes_NewCipher kb = Inr (Block kb)"
  using assms by (simp_all add: hex_Decode_Encode aes_NewCipher_def)

lemma save_New_valid:
  assumes msg: "req_Message req \<noteq> []"
    and len: "44 \<le> length r"
    and obj: "json_Marshal J \<lparr>Message = req_Message req, OneTime = req_OneTime req\<rparr> = Inr object"
  shows "save_New A J (Some saver) (Decoded req) r s =
     (case Set saver (new_alias r) (new_blob A r object) (req_Expiration req * time_Hour) s of
        (Some err, s1) \<Rightarrow>
          (Reply StatusInternalServerError (JSON_Response (resp_Error ''Url already exists'')),
           drop 44 r, s1)
      | (None, s1) \<Rightarrow>
          (Reply http_StatusOK
             (JSON_Save \<lparr>Status = StatusOK, Error = [],
                resp_Alias = new_alias r, resp_Key = new_key r\<rparr>), drop 44 r, s1))"
proof -
  from len obtain u where u: "uuid_NewV4 r = ((u, None), drop 16 r)"
    using uuid_NewV4_enough [of r] by auto
  from len have k: "GenerateRandomHexKey (drop 16 r) = (Inr (new_key r), drop 32 r)"
    using GenerateRandomHexKey_enough [of "drop 16 r"] by (simp add: new_key_def new_key_bytes_def)
  from len have kl: "length (new_key_bytes r) = 16"
    by (simp add: new_key_bytes_def)
  from len have e: "Encode A (drop 32 r) object (new_key r) = (Inr (new_blob A r object), drop 44 r)"
    using Encode_valid_key [OF generated_key_setup [OF kl], of A "drop 32 r" object]
    by (simp add: new_key_def new_blob_def new_nonce_def)
  from msg have v: "validate_Struct req = None"
    by (simp add: validate_Struct_None_iff)
  show ?thesis
    by (simp add: save_New_def v u k obj e new_alias_def split: prod.splits option.splits)
qed

lemma save_New_never_400:
  assumes "req_Message req \<noteq> []"
  shows "fst (save_New A J (Some saver) (Decoded req) r s) \<noteq> Reply StatusBadRequest b"
  using assms
  by (simp add: save_New_def validate_Struct_def Let_def StatusBadRequest_def
      StatusInternalServerError_def http_StatusOK_def
      split: prod.splits sum.splits option.splits)

text \<open>
  C6. A create request whose message is empty is answered with 400 and the validation
  error list naming the field; the random source and the store are returned untouched, so
  \<open>Set\<close> is not called. A request with a non-empty message passes validation and is never
  answered with 400.
\<close>

theorem save_requires_message:
  "(req_Message req = [] \<longrightarrow>
      save_New A J (Some saver) (Decoded req) r s =
        (Reply StatusBadRequest
           (JSON_Validation [\<lparr>ve_Field = ''message'', ve_Error = ''This field is required''\<rparr>]),
         r, s)) \<and>
   (req_Message req \<noteq> [] \<longrightarrow>
      validate_Struct req = None \<and>
      (\<forall>b. fst (save_New A J (Some saver) (Decoded req) r s) \<noteq> Reply StatusBadRequest b))"
  using save_New_invalid [of req A J saver r s] save_New_never_400 [of req A J saver r s]
  by (simp add: validate_Struct_None_iff)

theorem save_requires_message_witness:
  "save_New demo_aead demo_json (Some (MockSecretSaver None))
      (Decoded \<lparr>req_Message = [], req_Expiration = 1, req_OneTime = False\<rparr>) demo_entropy [] =
     (Reply 400 (JSON_Validation [\<lparr>ve_Field = ''message'', ve_Error = ''This field is required''\<rparr>]),
      demo_entropy, [])
   \<and> validate_Struct \<lparr>req_Message = ''my secret message'', req_Expiration = 24, req_OneTime = False\<rparr>
       = None"
  using save_requires_message [of "\<lparr>req_Message = [], req_Expiration = 1, req_OneTime = False\<rparr>"
      demo_aead demo_json "MockSecretSaver None" demo_entropy "[]"]
    save_requires_message [of
      "\<lparr>req_Message = ''my secret message'', req_Expiration = 24, req_OneTime = False\<rparr>"
      demo_aead demo_json "MockSecretSaver None" demo_entropy "[]"]
  by (simp add: StatusBadRequest_def)

text \<open>C4, as stated: fails, a negative expiration is accepted and stored.\<close>

theorem save_negative_expiration_counterexample:
  "save_New demo_aead demo_json (Some (MockSecretSaver None))
      (Decoded \<lparr>req_Message = ''x'', req_Expiration = - 1, req_OneTime = False\<rparr>) demo_entropy [] =
     (Reply 200 (JSON_Save \<lparr>Status = ''OK'', Error = [],
        resp_Alias = ''00010203-0405-4607-8809-0a0b0c0d0e0f'',
        resp_Key = ''101112131415161718191a1b1c1d1e1f''\<rparr>),
      [],
      [Called_Set ''00010203-0405-4607-8809-0a0b0c0d0e0f''
         [32, 33, 34, 35, 36, 37, 38, 39, 40, 41, 42, 43, 0, 120, 16, 17, 18, 19,
          20, 21, 22, 23, 24, 25, 26, 27, 28, 29, 30, 31]
         (- 1 * time_Hour)])
   \<and> sint (- 1 * time_Hour) = - 3600000000000"
  by code_simp

lemma sint_time_Hour: "sint time_Hour = 3600000000000"
  by (simp add: time_Hour_def)

lemma hours_no_wrap:
  assumes "0 \<le> sint e" and "sint e \<le> 2562047"
  shows "sint (e * time_Hour) = sint e * 3600000000000"
proof -
  have "sint (e * time_Hour) = signed_take_bit 63 (sint e * 3600000000000)"
    by (simp add: sint_word_ariths sint_time_Hour)
  moreover from assms have "- (2 ^ 63) \<le> sint e * 3600000000000"
    and "sint e * 3600000000000 < 2 ^ 63"
    by simp_all
  ultimately show ?thesis
    by (simp add: signed_take_bit_int_eq_self)
qed

text \<open>
  C4, amended. The create call does not validate the expiration: validation looks at the
  message only, so a request with a non-empty message is never answered with a validation
  error, whatever its expiration, a negative one included. For an expiration of 0 to
  2562047 hours (the range whose product with one hour fits the 64-bit duration), once
  the alias, the key and the nonce are drawn and the secret is marshalled, the handler
  calls \<open>Set\<close> with a duration of exactly that many hours and answers 200 with alias and
  key when \<open>Set\<close> succeeds, 500 when it fails.
\<close>

theorem save_expiration_not_validated:
  assumes "req_Message req \<noteq> []"
  shows "validate_Struct (req\<lparr>req_Expiration := e\<rparr>) = None \<and>
     (\<forall>b. fst (save_New A J (Some saver) (Decoded (req\<lparr>req_Expiration := e\<rparr>)) r s)
            \<noteq> Reply StatusBadRequest b) \<and>
     (0 \<le> sint e \<and> sint e \<le> 2562047 \<and> 44 \<le> length r \<and>
      json_Marshal J \<lparr>Message = req_Message req, OneTime = req_OneTime req\<rparr> = Inr object \<longrightarrow>
        sint (e * time_Hour) = sint e * 3600000000000 \<and>
        save_New A J (Some saver) (Decoded (req\<lparr>req_Expiration := e\<rparr>)) r s =
          (case Set saver (new_alias r) (new_blob A r object) (e * time_Hour) s of
             (Some err, s1) \<Rightarrow>
               (Reply StatusInternalServerError (JSON_Response (resp_Error ''Url already exists'')),
                drop 44 r, s1)
           | (None, s1) \<Rightarrow>
               (Reply http_StatusOK
                  (JSON_Save \<lparr>Status = StatusOK, Error = [],
                     resp_Alias = new_alias r, resp_Key = new_key r\<rparr>), drop 44 r, s1)))"
proof -
  let ?req = "req\<lparr>req_Expiration := e\<rparr>"
  from assms have msg: "req_Message ?req \<noteq> []" by simp
  have "validate_Struct ?req = None"
    using msg by (simp add: validate_Struct_None_iff)
  moreover have "\<forall>b. fst (save_New A J (Some saver) (Decoded ?req) r s) \<noteq> Reply StatusBadRequest b"
    by (intro allI save_New_never_400 [OF msg])
  moreover have "sint (e * time_Hour) = sint e * 3600000000000 \<and>
        save_New A J (Some saver) (Decoded ?req) r s =
          (case Set saver (new_alias r) (new_blob A r object) (e * time_Hour) s of
             (Some err, s1) \<Rightarrow>
               (Reply StatusInternalServerError (JSON_Response (resp_Error ''Url already exists'')),
                drop 44 r, s1)
           | (None, s1) \<Rightarrow>
               (Reply http_StatusOK
                  (JSON_Save \<lparr>Status = StatusOK, Error = [],
                     resp_Alias = new_alias r, resp_Key = new_key r\<rparr>), drop 44 r, s1))"
    if h: "0 \<le> sint e \<and> sint e \<le> 2562047 \<and> 44 \<le> length r \<and>
      json_Marshal J \<lparr>Message = req_Message req, OneTime = req_OneTime req\<rparr> = Inr object"
    using save_New_valid [of ?req r J object A saver s] msg h hours_no_wrap [of e]
    by simp
  ultimately show ?thesis by blast
qed

theorem save_expiration_not_validated_witness:
  "validate_Struct \<lparr>req_Message = ''x'', req_Expiration = - 1, req_OneTime = False\<rparr> = None
   \<and> fst (save_New demo_aead demo_json (Some (MockSecretSaver None))
        (Decoded \<lparr>req_Message = ''x'', req_Expiration = - 1, req_OneTime = False\<rparr>)
        demo_entropy [])
      \<noteq> Reply 400 (JSON_Validation
            [\<lparr>ve_Field = ''expiration'', ve_Error = ''Value must be greater than or equal to 0''\<rparr>])
   \<and> sint (24 * time_Hour) = 86400000000000
   \<and> save_New demo_aead demo_json (Some (MockSecretSaver None))
        (Decoded \<lparr>req_Message = ''x'', req_Expiration = 24, req_OneTime = False\<rparr>)
        demo_entropy [] =
      (Reply 200 (JSON_Save \<lparr>Status = ''OK'', Error = [],
          resp_Alias = new_alias demo_entropy, resp_Key = new_key demo_entropy\<rparr>),
       [],
       [Called_Set (new_alias demo_entropy)
          (new_blob demo_aead demo_entropy (0 # map byte_of_char ''x'')) (24 * time_Hour)])"
proof -
  let ?req = "\<lparr>req_Message = ''x'', req_Expiration = 0, req_OneTime = False\<rparr>"
  have m: "req_Message ?req \<noteq> []" by simp
  have l: "44 \<le> length demo_entropy" by (simp add: demo_entropy_def)
  have d: "drop 44 demo_entropy = []" by (simp add: demo_entropy_def)
  have j: "json_Marshal demo_json \<lparr>Message = req_Message ?req, OneTime = req_OneTime ?req\<rparr>
     = Inr (0 # map byte_of_char ''x'')"
    by (simp add: demo_json_def)
  have range: "0 \<le> sint (24 :: 64 word) \<and> sint (24 :: 64 word) \<le> 2562047" by simp
  show ?thesis
    using save_expiration_not_validated [OF m, of "- 1" demo_aead demo_json
        "MockSecretSaver None" demo_entropy "[]"]
      save_expiration_not_validated [OF m, of 24 demo_aead demo_json
        "MockSecretSaver None" demo_entropy "[]" "0 # map byte_of_char ''x''"]
      l j range d
    by (simp add: MockSecretSaver_def http_StatusOK_def StatusOK_def StatusBadRequest_def)
qed

section \<open>Create, then retrieve\<close>

















text \<open>
  The lifetime follows the client's rounding: an expiration of 5124096 hours wraps, in
  64 bits, to 1526290448384 ns, which is sent as \<^verbatim>\<open>PX 1526290\<close>; the entry is served one
  millisecond before that deadline and gone when it is reached.
\<close>

lemma wrapped_expiration_lifetime:
  "sint (5124096 * time_Hour) = 1526290448384"
  "lifetime_ms (sint (5124096 * time_Hour)) = 1526290"
  by (simp_all add: time_Hour_def lifetime_ms_def usePrecise_def formatMs_def go_mod_def
      go_div_def time_Second_def time_Millisecond_def)

lemma wrapped_expiration_expires:
  "map (\<lambda>d. fst (fetch_New demo_aead demo_json (Some Store_fetcher)
        (new_alias demo_entropy) (new_key demo_entropy)
        (elapse d (snd (snd (save_New demo_aead demo_json (Some Store_saver)
           (Decoded \<lparr>req_Message = ''hello'', req_Expiration = 5124096, req_OneTime = False\<rparr>)
           demo_entropy store_up))))))
     [1526290 - 1, 1526290] =
   [Reply 200 (JSON_Fetch \<lparr>Status = ''OK'', Error = [], resp_Message = ''hello''\<rparr>),
    Reply 404 (JSON_Response \<lparr>Status = ''ERROR'', Error = ''Secret not found''\<rparr>)]"
  by code_simp

end
